theory Spec2Isabelle
  imports Complex_Main "HOL-Library.Char_ord" "HOL-Library.List_Lexorder"
begin

section \<open>Values, exceptions and the library calls of plot.py\<close>

text \<open>
  The program \<^verbatim>\<open>plot.py\<close> is glue around pandas, numpy, scipy, matplotlib and watchdog.
  The embedding keeps the control flow of the three source units
  (\<^verbatim>\<open>interpolate_and_plot\<close>, \<^verbatim>\<open>CSVFileChangeHandler\<close>, \<^verbatim>\<open>main\<close>) as it is written and
  makes every library call explicit.

  A cell of a pandas column or an element of a numpy array is a \<open>scalar\<close>: a float64
  (\<open>Num\<close>, taken as an exact real, or \<open>NaN\<close>), or a Python string (\<open>Str\<close>), which is what
  pandas stores in an object column when a field does not parse as a number.
\<close>

datatype scalar = Num real | NaN | Str string

text \<open>
  Python exceptions. \<^verbatim>\<open>except Exception\<close> catches every exception but the ones
  derived from \<^verbatim>\<open>BaseException\<close> only, of which \<open>KeyboardInterrupt\<close> is the one that
  \<^verbatim>\<open>main\<close> handles. \<open>Exception msg\<close> carries the text that \<^verbatim>\<open>str(e)\<close> prints.
\<close>

datatype exn = KeyboardInterrupt | Exception string

definition and_then :: "exn + 'a \<Rightarrow> ('a \<Rightarrow> exn + 'b) \<Rightarrow> exn + 'b" where
  "and_then m k = (case m of Inl e \<Rightarrow> Inl e | Inr x \<Rightarrow> k x)"

text \<open>
  The data frame that
  \<^verbatim>\<open>pd.read_csv(csv_file, header=None, names=["time", "power", "azimuth", "elevation"])\<close>
  returns: a list of rows, each with the four named columns (the field of the column
  \<^verbatim>\<open>power\<close> is called \<open>power_val\<close>, since \<open>power\<close> is HOL's exponentiation).
\<close>

record sample =
  time :: scalar
  power_val :: scalar
  azimuth :: scalar
  elevation :: scalar

type_synonym frame = "sample list"

text \<open>
  The library calls whose behaviour the program does not determine are parameters:
  \<^item> \<open>griddata\<close>: \<^verbatim>\<open>scipy.interpolate.griddata(points, values, xi, method="linear")\<close>
    (the interpolated field, or the exception raised);
  \<^item> \<open>abspath\<close>: \<^verbatim>\<open>os.path.abspath\<close> in the process's working directory.
\<close>

record lib =
  griddata :: "scalar list \<times> scalar list \<Rightarrow> scalar list
                 \<Rightarrow> scalar list list \<times> scalar list list \<Rightarrow> exn + scalar list list"
  abspath :: "string \<Rightarrow> string"

subsection \<open>numpy: min, max, linspace, meshgrid\<close>

fun nums :: "scalar list \<Rightarrow> real list" where
  "nums [] = []"
| "nums (Num a # xs) = a # nums xs"
| "nums (x # xs) = nums xs"

fun strs :: "scalar list \<Rightarrow> string list" where
  "strs [] = []"
| "strs (Str s # xs) = s # strs xs"
| "strs (x # xs) = strs xs"

text \<open>
  \<^verbatim>\<open>ndarray.min()\<close> and \<^verbatim>\<open>ndarray.max()\<close>. On a float64 array the result is the least
  (greatest) element, or NaN when an element is NaN. An array holding a string has dtype
  object and is reduced with Python's comparison: strings compare lexicographically, a
  string and a float do not compare (TypeError). An empty array has no minimum
  (ValueError).
\<close>

definition reduce_cmp :: "(real \<Rightarrow> real \<Rightarrow> real) \<Rightarrow> (string \<Rightarrow> string \<Rightarrow> string)
    \<Rightarrow> scalar list \<Rightarrow> exn + scalar" where
  "reduce_cmp fr fs xs =
     (if xs = [] then
        Inl (Exception ''ValueError: zero-size array to reduction operation'')
      else if length (nums xs) = length xs then
        Inr (Num (fold fr (tl (nums xs)) (hd (nums xs))))
      else if strs xs = [] then Inr NaN
      else if length (strs xs) = length xs then
        Inr (Str (fold fs (tl (strs xs)) (hd (strs xs))))
      else Inl (Exception ''TypeError: not supported between instances of float and str''))"

definition np_min :: "scalar list \<Rightarrow> exn + scalar" where
  "np_min xs = reduce_cmp min min xs"

definition np_max :: "scalar list \<Rightarrow> exn + scalar" where
  "np_max xs = reduce_cmp max max xs"

text \<open>
  \<^verbatim>\<open>np.linspace(start, stop, num)\<close> (endpoint included): numpy computes
  \<^verbatim>\<open>step = (stop - start) / (num - 1)\<close>, \<^verbatim>\<open>y = arange(0, num) * step + start\<close> and then
  stores \<^verbatim>\<open>stop\<close> in the last element. A NaN bound makes the step NaN; a string bound
  has no arithmetic (TypeError).
\<close>

definition linspace_real :: "real \<Rightarrow> real \<Rightarrow> nat \<Rightarrow> real list" where
  "linspace_real start stop num =
     (if num = 0 then []
      else if num = 1 then [start]
      else map (\<lambda>i. real i * ((stop - start) / real (num - 1)) + start) [0..<num - 1] @ [stop])"

definition nan_space :: "scalar \<Rightarrow> scalar \<Rightarrow> nat \<Rightarrow> scalar list" where
  "nan_space a b num =
     (if num = 0 then [] else if num = 1 then [a] else replicate (num - 1) NaN @ [b])"

definition no_loop :: exn where
  "no_loop = Exception ''TypeError: ufunc multiply did not contain a loop with signature matching types''"

fun linspace :: "scalar \<Rightarrow> scalar \<Rightarrow> nat \<Rightarrow> exn + scalar list" where
  "linspace (Num a) (Num b) num = Inr (map Num (linspace_real a b num))"
| "linspace (Num a) NaN num = Inr (nan_space (Num a) NaN num)"
| "linspace NaN (Num b) num = Inr (nan_space NaN (Num b) num)"
| "linspace NaN NaN num = Inr (nan_space NaN NaN num)"
| "linspace (Str s) b num = Inl no_loop"
| "linspace a (Str s) num = Inl no_loop"

text \<open>
  \<^verbatim>\<open>np.meshgrid(x, y)\<close> with the default \<^verbatim>\<open>indexing="xy"\<close>: two arrays of
  \<open>length y\<close> rows and \<open>length x\<close> columns; row \<open>i\<close> of the first is \<open>x\<close>, row \<open>i\<close> of the
  second repeats \<open>y ! i\<close>.
\<close>

definition meshgrid :: "'a list \<Rightarrow> 'a list \<Rightarrow> 'a list list \<times> 'a list list" where
  "meshgrid xs ys = (replicate (length ys) xs, map (\<lambda>y. replicate (length xs) y) ys)"

subsection \<open>matplotlib.pyplot: the figure and what is drawn in it\<close>

text \<open>
  What the program puts into the current figure, one constructor per call:
  \<^verbatim>\<open>imshow(power_grid, origin="lower", aspect="auto", extent=[...])\<close>,
  \<^verbatim>\<open>colorbar()\<close> with its \<^verbatim>\<open>set_label\<close>, \<^verbatim>\<open>scatter(x, y, marker=".")\<close>,
  \<^verbatim>\<open>xlabel\<close>, \<^verbatim>\<open>ylabel\<close> and \<^verbatim>\<open>title\<close>.
\<close>

datatype artist =
    Heatmap "scalar list list" "scalar \<times> scalar \<times> scalar \<times> scalar"
  | Colorbar string
  | Scatter "scalar list" "scalar list"
  | XLabel string
  | YLabel string
  | Title string

text \<open>
  A figure holds its artists and the frame last drawn on its canvas. The program only
  ever uses figure number 1: \<open>fig1 = None\<close> when that figure does not exist (never
  created, or its window closed).
\<close>

record figure =
  artists :: "artist list"
  canvas :: "artist list"

record pyplot =
  interactive :: bool
  fig1 :: "figure option"

text \<open>\<^verbatim>\<open>plt.gcf()\<close>: the current figure, created when there is none.\<close>

definition gcf :: "pyplot \<Rightarrow> figure" where
  "gcf p = (case fig1 p of None \<Rightarrow> \<lparr>artists = [], canvas = []\<rparr> | Some f \<Rightarrow> f)"

definition plt_ion :: "pyplot \<Rightarrow> pyplot" where
  "plt_ion p = p\<lparr>interactive := True\<rparr>"

definition plt_clf :: "pyplot \<Rightarrow> pyplot" where
  "plt_clf p = p\<lparr>fig1 := Some ((gcf p)\<lparr>artists := []\<rparr>)\<rparr>"

definition plt_add :: "artist \<Rightarrow> pyplot \<Rightarrow> pyplot" where
  "plt_add a p = p\<lparr>fig1 := Some ((gcf p)\<lparr>artists := artists (gcf p) @ [a]\<rparr>)\<rparr>"

definition plt_draw :: "pyplot \<Rightarrow> pyplot" where
  "plt_draw p = p\<lparr>fig1 := Some ((gcf p)\<lparr>canvas := artists (gcf p)\<rparr>)\<rparr>"

text \<open>\<^verbatim>\<open>plt.fignum_exists(1)\<close>.\<close>

definition plt_fignum_exists :: "pyplot \<Rightarrow> bool" where
  "plt_fignum_exists p = (fig1 p \<noteq> None)"

text \<open>
  What lies outside the process's own variables: the console, pyplot, and the files.
  Of the files the program only ever asks for the outcome of the \<^verbatim>\<open>pd.read_csv\<close> call
  above on a path, so \<open>read_csv w path\<close> is that outcome for the file as it is in the
  world \<open>w\<close>: a frame, or the exception raised. Another process may rewrite a file at
  any time.
\<close>

record world =
  stdout :: "string list"
  plt :: pyplot
  read_csv :: "string \<Rightarrow> exn + frame"

definition py_print :: "string \<Rightarrow> world \<Rightarrow> world" where
  "py_print s w = w\<lparr>stdout := stdout w @ [s]\<rparr>"

section \<open>\<^verbatim>\<open>interpolate_and_plot\<close>\<close>

text \<open>
  Lines 36 to 43: the bounds, the two axes of \<^verbatim>\<open>num_points = 100\<close> nodes and the mesh.
\<close>

record grid =
  az_min :: scalar
  az_max :: scalar
  el_min :: scalar
  el_max :: scalar
  az_grid :: "scalar list"
  el_grid :: "scalar list"
  AZ :: "scalar list list"
  EL :: "scalar list list"

definition num_points :: nat where
  "num_points = 100"

definition build_grid :: "scalar list \<Rightarrow> scalar list \<Rightarrow> exn + grid" where
  "build_grid azimuths elevations =
     and_then (np_min azimuths) (\<lambda>azmin.
     and_then (np_max azimuths) (\<lambda>azmax.
     and_then (np_min elevations) (\<lambda>elmin.
     and_then (np_max elevations) (\<lambda>elmax.
     and_then (linspace azmin azmax num_points) (\<lambda>azg.
     and_then (linspace elmin elmax num_points) (\<lambda>elg.
       Inr \<lparr>az_min = azmin, az_max = azmax, el_min = elmin, el_max = elmax,
            az_grid = azg, el_grid = elg,
            AZ = fst (meshgrid azg elg), EL = snd (meshgrid azg elg)\<rparr>))))))"

text \<open>Lines 53 to 72: clear the figure and plot again.\<close>

definition render :: "scalar list list \<Rightarrow> grid \<Rightarrow> scalar list \<Rightarrow> scalar list \<Rightarrow> pyplot \<Rightarrow> pyplot" where
  "render power_grid g azimuths elevations p =
     plt_draw
       (plt_add (Title ''Interpolated Power Heatmap'')
       (plt_add (YLabel ''Elevation'')
       (plt_add (XLabel ''Azimuth'')
       (plt_add (Scatter azimuths elevations)
       (plt_add (Colorbar ''Power'')
       (plt_add (Heatmap power_grid (az_min g, az_max g, el_min g, el_max g))
       (plt_clf p)))))))"

text \<open>
  The whole function. Only the \<^verbatim>\<open>pd.read_csv\<close> call stands in the
  \<^verbatim>\<open>try: ... except Exception as e\<close>; every later call is outside it, so what it raises
  leaves the function. All calls that can raise come before \<^verbatim>\<open>plt.clf()\<close>, so a raised
  exception (\<open>Inl\<close>) leaves the world as it was.
\<close>

definition interpolate_and_plot :: "lib \<Rightarrow> string \<Rightarrow> world \<Rightarrow> exn + world" where
  "interpolate_and_plot L csv_file w =
     (case read_csv w csv_file of
        Inl (Exception e) \<Rightarrow>
          Inr (py_print (''Failed to read or parse '' @ csv_file @ '': '' @ e) w)
      | Inl KeyboardInterrupt \<Rightarrow> Inl KeyboardInterrupt
      | Inr df \<Rightarrow>
          if length df < 2 then Inr (py_print ''Not enough data to plot.'' w)
          else
            let azimuths = map azimuth df;
                elevations = map elevation df;
                power = map power_val df
            in and_then (build_grid azimuths elevations) (\<lambda>g.
               and_then (griddata L (azimuths, elevations) power (AZ g, EL g)) (\<lambda>power_grid.
                 Inr (w\<lparr>plt := render power_grid g azimuths elevations (plt w)\<rparr>))))"

section \<open>\<^verbatim>\<open>CSVFileChangeHandler\<close>\<close>

text \<open>
  A watchdog event: its \<^verbatim>\<open>event_type\<close> and its \<^verbatim>\<open>src_path\<close>.
\<close>

datatype event_type = Modified | Created | Deleted | Moved | Opened | Closed

record fs_event =
  event_type :: event_type
  src_path :: string

record CSVFileChangeHandler =
  target_path :: string

text \<open>\<^verbatim>\<open>__init__\<close>: the handler stores the absolute path of its target.\<close>

definition handler_init :: "lib \<Rightarrow> string \<Rightarrow> CSVFileChangeHandler" where
  "handler_init L target = \<lparr>target_path = abspath L target\<rparr>"

text \<open>
  \<^verbatim>\<open>on_modified\<close> acts on the global \<^verbatim>\<open>file_changed\<close> and on the console; both are
  passed in and returned.
\<close>

definition on_modified :: "lib \<Rightarrow> CSVFileChangeHandler \<Rightarrow> fs_event \<Rightarrow> bool \<times> world \<Rightarrow> bool \<times> world" where
  "on_modified L h ev gw =
     (if abspath L (src_path ev) = target_path h
      then (True, py_print (''File changed: '' @ src_path ev) (snd gw))
      else gw)"

text \<open>
  \<^verbatim>\<open>FileSystemEventHandler.dispatch\<close> calls the method of the event's type; the class
  overrides \<^verbatim>\<open>on_modified\<close> only, and the inherited methods do nothing.
\<close>

definition dispatch :: "lib \<Rightarrow> CSVFileChangeHandler \<Rightarrow> fs_event \<Rightarrow> bool \<times> world \<Rightarrow> bool \<times> world" where
  "dispatch L h ev gw = (if event_type ev = Modified then on_modified L h ev gw else gw)"

section \<open>\<^verbatim>\<open>main\<close> and the observer thread\<close>

text \<open>
  The process is a transition system. The main thread is at one of the program points
  below; the observer thread delivers file-system events to the handler while the
  observer runs. A step of either thread is atomic (the interpreter lock makes a read
  or a write of the global flag atomic), and a schedule is a list of steps in the
  order they happen.

  The program points of \<^verbatim>\<open>main\<close>: \<open>AtIon\<close> (line 95), \<open>AtInitialPlot\<close> (line 96),
  \<open>AtObserve\<close> (lines 99 to 106), \<open>AtFigCheck\<close> (line 112), \<open>AtFlagCheck\<close> (line 116),
  \<open>AtClear\<close> (line 117), \<open>AtReplot\<close> (line 118, before the call), \<open>InReplot\<close> (line 118,
  the call in progress), \<open>AtPause\<close> (line 120), \<open>AtFinally\<close> (lines 124 and 125),
  \<open>Exited\<close> (main has returned) and \<open>Crashed e\<close> (the exception \<open>e\<close> has left main).
\<close>

datatype pc =
    AtIon | AtInitialPlot | AtObserve
  | AtFigCheck | AtFlagCheck | AtClear | AtReplot | InReplot | AtPause
  | AtFinally | Exited | Crashed exn

datatype observer_state = NotStarted | Running | Stopped

text \<open>
  \<open>refreshes\<close> is a history variable: the number of calls of
  \<^verbatim>\<open>interpolate_and_plot\<close> that main has started.
\<close>

record sys =
  file_changed :: bool
  pc :: pc
  wld :: world
  event_handler :: "CSVFileChangeHandler option"
  observer :: observer_state
  refreshes :: nat

text \<open>The start of the process, with the files as \<open>files\<close>.\<close>

definition init_world :: "(string \<Rightarrow> exn + frame) \<Rightarrow> world" where
  "init_world files = \<lparr>stdout = [], plt = \<lparr>interactive = False, fig1 = None\<rparr>,
                        read_csv = files\<rparr>"

definition init_sys :: "(string \<Rightarrow> exn + frame) \<Rightarrow> sys" where
  "init_sys files = \<lparr>file_changed = False, pc = AtIon, wld = init_world files,
                      event_handler = None, observer = NotStarted, refreshes = 0\<rparr>"

text \<open>
  One step of the main thread. An exception of the first call (line 96) is outside the
  \<^verbatim>\<open>try\<close> and leaves main at once. Inside the loop, \<^verbatim>\<open>except KeyboardInterrupt: pass\<close>
  catches that exception only; any other one runs the \<^verbatim>\<open>finally\<close> block and leaves main.
\<close>

definition main_step :: "lib \<Rightarrow> string \<Rightarrow> sys \<Rightarrow> sys" where
  "main_step L csv_file s =
     (case pc s of
        AtIon \<Rightarrow> s\<lparr>wld := (wld s)\<lparr>plt := plt_ion (plt (wld s))\<rparr>, pc := AtInitialPlot\<rparr>
      | AtInitialPlot \<Rightarrow>
          (case interpolate_and_plot L csv_file (wld s) of
             Inr w' \<Rightarrow> s\<lparr>wld := w', pc := AtObserve, refreshes := refreshes s + 1\<rparr>
           | Inl e \<Rightarrow> s\<lparr>pc := Crashed e, refreshes := refreshes s + 1\<rparr>)
      | AtObserve \<Rightarrow>
          s\<lparr>event_handler := Some (handler_init L csv_file), observer := Running,
            wld := py_print (''Watching file: '' @ csv_file @ [CHR 0x0A]
                @ ''Close the plot window or press Ctrl+C to quit.'') (wld s),
            pc := AtFigCheck\<rparr>
      | AtFigCheck \<Rightarrow>
          (if \<not> plt_fignum_exists (plt (wld s)) then s\<lparr>pc := AtFinally\<rparr>
           else s\<lparr>pc := AtFlagCheck\<rparr>)
      | AtFlagCheck \<Rightarrow> (if file_changed s then s\<lparr>pc := AtClear\<rparr> else s\<lparr>pc := AtPause\<rparr>)
      | AtClear \<Rightarrow> s\<lparr>file_changed := False, pc := AtReplot\<rparr>
      | AtReplot \<Rightarrow> s\<lparr>pc := InReplot, refreshes := refreshes s + 1\<rparr>
      | InReplot \<Rightarrow>
          (case interpolate_and_plot L csv_file (wld s) of
             Inr w' \<Rightarrow> s\<lparr>wld := w', pc := AtPause\<rparr>
           | Inl KeyboardInterrupt \<Rightarrow> s\<lparr>pc := AtFinally\<rparr>
           | Inl (Exception e) \<Rightarrow> s\<lparr>observer := Stopped, pc := Crashed (Exception e)\<rparr>)
      | AtPause \<Rightarrow> s\<lparr>pc := AtFigCheck\<rparr>
      | AtFinally \<Rightarrow> s\<lparr>observer := Stopped, pc := Exited\<rparr>
      | Exited \<Rightarrow> s
      | Crashed e \<Rightarrow> s)"

text \<open>
  What can happen: a step of main; the observer thread calling the handler's
  \<^verbatim>\<open>dispatch\<close> with an event; another process rewriting a file, after which
  \<^verbatim>\<open>pd.read_csv\<close> on its path has the given outcome; the user closing the window, which
  the GUI event loop handles while \<^verbatim>\<open>plt.pause\<close> runs; the user pressing Ctrl+C, which
  raises \<open>KeyboardInterrupt\<close> in the main thread.
\<close>

datatype event =
    MainStep
  | Notify fs_event
  | FileWrite string "exn + frame"
  | CloseWindow
  | CtrlC

fun in_loop :: "pc \<Rightarrow> bool" where
  "in_loop AtFigCheck = True"
| "in_loop AtFlagCheck = True"
| "in_loop AtClear = True"
| "in_loop AtReplot = True"
| "in_loop InReplot = True"
| "in_loop AtPause = True"
| "in_loop p = False"

fun finished :: "pc \<Rightarrow> bool" where
  "finished Exited = True"
| "finished (Crashed e) = True"
| "finished p = False"

fun step :: "lib \<Rightarrow> string \<Rightarrow> sys \<Rightarrow> event \<Rightarrow> sys" where
  "step L csv_file s MainStep = main_step L csv_file s"
| "step L csv_file s (Notify ev) =
     (case event_handler s of
        Some h \<Rightarrow>
          (if observer s = Running
           then s\<lparr>file_changed := fst (dispatch L h ev (file_changed s, wld s)),
                  wld := snd (dispatch L h ev (file_changed s, wld s))\<rparr>
           else s)
      | None \<Rightarrow> s)"
| "step L csv_file s (FileWrite path outcome) =
     s\<lparr>wld := (wld s)\<lparr>read_csv := (read_csv (wld s))(path := outcome)\<rparr>\<rparr>"
| "step L csv_file s CloseWindow =
     (if pc s = AtPause then s\<lparr>wld := (wld s)\<lparr>plt := (plt (wld s))\<lparr>fig1 := None\<rparr>\<rparr>\<rparr> else s)"
| "step L csv_file s CtrlC =
     (if in_loop (pc s) then s\<lparr>pc := AtFinally\<rparr>
      else if finished (pc s) then s
      else s\<lparr>pc := Crashed KeyboardInterrupt\<rparr>)"

definition run :: "lib \<Rightarrow> string \<Rightarrow> sys \<Rightarrow> event list \<Rightarrow> sys" where
  "run L csv_file s es = foldl (step L csv_file) s es"


section \<open>An example environment\<close>

text \<open>
  A concrete environment, used to evaluate the model on concrete inputs.
  \<^item> \<open>example_read_csv\<close> gives the outcome of \<^verbatim>\<open>pd.read_csv\<close> for five files:
    \<^verbatim>\<open>data.csv\<close> (four samples at the corners of a square), \<^verbatim>\<open>one.csv\<close> (one sample),
    \<^verbatim>\<open>line.csv\<close> (three samples of equal azimuth), \<^verbatim>\<open>text.csv\<close> (two rows whose third
    field is not a number, which pandas reads as an object column of strings without
    raising) and any other path (no such file).
  \<^item> \<open>example_griddata\<close> raises as scipy does when Qhull cannot triangulate the points
    (all of them on one line) and returns a field otherwise; the values of the field
    are not the subject of any statement below, and every node is left at NaN.
  \<^item> \<open>example_abspath\<close> joins a relative path to the working directory \<^verbatim>\<open>/home/op\<close>.
\<close>

definition mk_sample :: "real \<Rightarrow> real \<Rightarrow> real \<Rightarrow> real \<Rightarrow> sample" where
  "mk_sample t p a e = \<lparr>time = Num t, power_val = Num p, azimuth = Num a, elevation = Num e\<rparr>"

definition example_read_csv :: "string \<Rightarrow> exn + frame" where
  "example_read_csv path =
     (if path = ''data.csv'' then
        Inr [mk_sample 0 1 0 0, mk_sample 1 2 10 0, mk_sample 2 3 0 10, mk_sample 3 4 10 10]
      else if path = ''one.csv'' then Inr [mk_sample 0 1 0 0]
      else if path = ''line.csv'' then
        Inr [mk_sample 0 1 5 0, mk_sample 1 2 5 10, mk_sample 2 3 5 20]
      else if path = ''text.csv'' then
        Inr [\<lparr>time = Num 0, power_val = Num 1, azimuth = Str ''abc'', elevation = Num 0\<rparr>,
             \<lparr>time = Num 1, power_val = Num 2, azimuth = Str ''10'', elevation = Num 0\<rparr>]
      else Inl (Exception (''[Errno 2] No such file or directory: '' @ path)))"

definition collinear :: "(real \<times> real) list \<Rightarrow> bool" where
  "collinear ps =
     list_all (\<lambda>p. list_all (\<lambda>q. list_all (\<lambda>r.
       (fst q - fst p) * (snd r - snd p) - (snd q - snd p) * (fst r - fst p) = 0) ps) ps) ps"

definition example_griddata :: "scalar list \<times> scalar list \<Rightarrow> scalar list
    \<Rightarrow> scalar list list \<times> scalar list list \<Rightarrow> exn + scalar list list" where
  "example_griddata points vals xi =
     (if collinear (zip (nums (fst points)) (nums (snd points)))
      then Inl (Exception ''QhullError: QH6154 Qhull precision error: Initial simplex is flat'')
      else Inr (map (map (\<lambda>x. NaN)) (fst xi)))"

definition example_abspath :: "string \<Rightarrow> string" where
  "example_abspath path = (if take 1 path = ''/'' then path else ''/home/op/'' @ path)"

definition example_lib :: lib where
  "example_lib = \<lparr>griddata = example_griddata, abspath = example_abspath\<rparr>"

section \<open>Basic facts\<close>

lemma and_then_Inr [simp]: "and_then (Inr x) k = k x"
  by (simp add: and_then_def)

lemma and_then_Inl [simp]: "and_then (Inl e) k = Inl e"
  by (simp add: and_then_def)

lemma nums_map_Num [simp]: "nums (map Num xs) = xs"
  by (induction xs) auto

lemma strs_map_Num [simp]: "strs (map Num xs) = []"
  by (induction xs) auto

lemma fold_min_Min: "xs \<noteq> [] \<Longrightarrow> fold min (tl xs) (hd xs) = Min (set xs)"
  by (cases xs) (simp_all add: Min.set_eq_fold [symmetric])

lemma fold_max_Max: "xs \<noteq> [] \<Longrightarrow> fold max (tl xs) (hd xs) = Max (set xs)"
  by (cases xs) (simp_all add: Max.set_eq_fold [symmetric])

lemma np_min_Num: "xs \<noteq> [] \<Longrightarrow> np_min (map Num xs) = Inr (Num (Min (set xs)))"
  by (simp add: np_min_def reduce_cmp_def fold_min_Min)

lemma np_max_Num: "xs \<noteq> [] \<Longrightarrow> np_max (map Num xs) = Inr (Num (Max (set xs)))"
  by (simp add: np_max_def reduce_cmp_def fold_max_Max)

lemma plt_py_print [simp]: "plt (py_print s w) = plt w"
  by (simp add: py_print_def)

lemma stdout_py_print [simp]: "stdout (py_print s w) = stdout w @ [s]"
  by (simp add: py_print_def)

text \<open>The grid of lines 36 to 43 on numeric columns.\<close>

lemma length_linspace_real [simp]: "length (linspace_real a b n) = n"
  by (simp add: linspace_real_def)

lemma linspace_real_nth:
  assumes "2 \<le> n" and "i < n"
  shows "linspace_real a b n ! i = a + real i * (b - a) / real (n - 1)"
proof (cases "i < n - 1")
  case True
  with assms show ?thesis
    by (simp add: linspace_real_def nth_append)
next
  case False
  with assms have i: "i = n - 1" by simp
  from assms have "real (n - 1) \<noteq> 0" by simp
  then have "a + real (n - 1) * (b - a) / real (n - 1) = b" by simp
  with assms i show ?thesis
    by (simp add: linspace_real_def nth_append)
qed



lemma linspace_real_bounds:
  assumes "2 \<le> n" and "a \<le> b" and "x \<in> set (linspace_real a b n)"
  shows "a \<le> x \<and> x \<le> b"
proof -
  from assms(3) obtain i where i: "i < n" and x: "x = linspace_real a b n ! i"
    by (auto simp: in_set_conv_nth)
  have n: "0 < real (n - 1)" using assms(1) by simp
  have "real i \<le> real (n - 1)" using i by simp
  then have "real i * (b - a) \<le> real (n - 1) * (b - a)"
    using assms(2) by (intro mult_right_mono) simp_all
  then have "real i * (b - a) / real (n - 1) \<le> b - a"
    using n by (simp add: field_simps)
  moreover have "0 \<le> real i * (b - a) / real (n - 1)"
    using assms(2) by simp
  ultimately show ?thesis
    using x i assms(1) by (simp add: linspace_real_nth)
qed

lemma build_grid_Num:
  assumes "azs \<noteq> []" and "els \<noteq> []"
  shows "build_grid (map Num azs) (map Num els) =
     Inr \<lparr>az_min = Num (Min (set azs)), az_max = Num (Max (set azs)),
          el_min = Num (Min (set els)), el_max = Num (Max (set els)),
          az_grid = map Num (linspace_real (Min (set azs)) (Max (set azs)) num_points),
          el_grid = map Num (linspace_real (Min (set els)) (Max (set els)) num_points),
          AZ = replicate num_points
                 (map Num (linspace_real (Min (set azs)) (Max (set azs)) num_points)),
          EL = map (\<lambda>y. replicate num_points y)
                 (map Num (linspace_real (Min (set els)) (Max (set els)) num_points))\<rparr>"
  using assms by (simp add: build_grid_def np_min_Num np_max_Num meshgrid_def)

lemma render_eq:
  "render field g azimuths elevations p =
     p\<lparr>fig1 := Some \<lparr>artists = [Heatmap field (az_min g, az_max g, el_min g, el_max g),
                                 Colorbar ''Power'', Scatter azimuths elevations,
                                 XLabel ''Azimuth'', YLabel ''Elevation'',
                                 Title ''Interpolated Power Heatmap''],
                      canvas = [Heatmap field (az_min g, az_max g, el_min g, el_max g),
                                 Colorbar ''Power'', Scatter azimuths elevations,
                                 XLabel ''Azimuth'', YLabel ''Elevation'',
                                 Title ''Interpolated Power Heatmap'']\<rparr>\<rparr>"
  by (simp add: render_def plt_draw_def plt_add_def plt_clf_def gcf_def)

lemma plot_unfold:
  assumes "read_csv w csv_file = Inr df" and "2 \<le> length df"
    and "build_grid (map azimuth df) (map elevation df) = Inr g"
  shows "interpolate_and_plot L csv_file w =
     and_then (griddata L (map azimuth df, map elevation df) (map power_val df) (AZ g, EL g))
       (\<lambda>field. Inr (w\<lparr>plt := render field g (map azimuth df) (map elevation df) (plt w)\<rparr>))"
  using assms by (simp add: interpolate_and_plot_def Let_def)


text \<open>The two early returns of \<^verbatim>\<open>interpolate_and_plot\<close>.\<close>

lemma read_failure_caught:
  "read_csv w csv_file = Inl (Exception e) \<Longrightarrow>
   interpolate_and_plot L csv_file w =
     Inr (py_print (''Failed to read or parse '' @ csv_file @ '': '' @ e) w)"
  by (simp add: interpolate_and_plot_def)

lemma too_few_rows:
  "read_csv w csv_file = Inr df \<Longrightarrow> length df < 2 \<Longrightarrow>
   interpolate_and_plot L csv_file w = Inr (py_print ''Not enough data to plot.'' w)"
  by (simp add: interpolate_and_plot_def)

text \<open>The example files.\<close>

lemma example_one:
  "read_csv (init_world example_read_csv) ''one.csv'' = Inr [mk_sample 0 1 0 0]"
  by (simp add: init_world_def example_read_csv_def)

lemma example_data:
  "read_csv (init_world example_read_csv) ''data.csv'' =
     Inr [mk_sample 0 1 0 0, mk_sample 1 2 10 0, mk_sample 2 3 0 10, mk_sample 3 4 10 10]"
  by (simp add: init_world_def example_read_csv_def)

lemma example_griddata_square:
  "example_griddata ([Num 0, Num 10, Num 0, Num 10], [Num 0, Num 0, Num 10, Num 10]) vals xi
     = Inr (map (map (\<lambda>x. NaN)) (fst xi))"
  by (simp add: example_griddata_def collinear_def)

lemma griddata_example_lib [simp]: "griddata example_lib = example_griddata"
  by (simp add: example_lib_def)

lemma run_Nil [simp]: "run L f s [] = s"
  by (simp add: run_def)

lemma run_Cons [simp]: "run L f s (e # es) = run L f (step L f s e) es"
  by (simp add: run_def)

lemma run_append: "run L f s (es @ es') = run L f (run L f s es) es'"
  by (simp add: run_def)

lemma failed_refresh_returns:
  assumes "(\<exists>e. read_csv w csv_file = Inl (Exception e))
           \<or> (\<exists>df. read_csv w csv_file = Inr df \<and> length df < 2)"
  shows "\<exists>msg. interpolate_and_plot L csv_file w = Inr (py_print msg w)"
  using assms by (auto simp: read_failure_caught too_few_rows)

lemma example_plot_square:
  assumes "read_csv w ''data.csv'' =
     Inr [mk_sample 0 1 0 0, mk_sample 1 2 10 0, mk_sample 2 3 0 10, mk_sample 3 4 10 10]"
  shows "\<exists>field g. interpolate_and_plot example_lib ''data.csv'' w =
     Inr (w\<lparr>plt := render field g [Num 0, Num 10, Num 0, Num 10] [Num 0, Num 0, Num 10, Num 10]
                      (plt w)\<rparr>)"
proof -
  let ?df = "[mk_sample 0 1 0 0, mk_sample 1 2 10 0, mk_sample 2 3 0 10, mk_sample 3 4 10 10]"
  obtain g where g: "build_grid (map azimuth ?df) (map elevation ?df) = Inr g"
    using build_grid_Num [of "[0, 10, 0, 10]" "[0, 0, 10, 10]"]
    by (simp add: mk_sample_def)
  have len: "2 \<le> length ?df" by simp
  have "interpolate_and_plot example_lib ''data.csv'' w =
     Inr (w\<lparr>plt := render (map (map (\<lambda>x. NaN)) (AZ g)) g
                      [Num 0, Num 10, Num 0, Num 10] [Num 0, Num 0, Num 10, Num 10] (plt w)\<rparr>)"
    unfolding plot_unfold [OF assms len g]
    by (simp add: mk_sample_def example_griddata_square)
  then show ?thesis by blast
qed

lemma read_csv_py_print [simp]: "read_csv (py_print msg w) = read_csv w"
  by (simp add: py_print_def)

lemma fig1_render [simp]: "fig1 (render field g xs ys p) \<noteq> None"
  by (simp add: render_eq)

lemma abspath_example_lib [simp]: "abspath example_lib = example_abspath"
  by (simp add: example_lib_def)

text \<open>The handler, once created, watches the absolute path of \<^verbatim>\<open>csv_file\<close>.\<close>

lemma main_step_never_sets_flag:
  "\<not> file_changed s \<Longrightarrow> \<not> file_changed (main_step L csv_file s)"
  by (cases "pc s") (simp_all add: main_step_def split: sum.splits exn.splits)

lemma event_handler_main_step:
  "event_handler (main_step L csv_file s) =
     (if pc s = AtObserve then Some (handler_init L csv_file) else event_handler s)"
  by (cases "pc s") (simp_all add: main_step_def split: sum.splits exn.splits)

lemma observer_main_step:
  "observer (main_step L csv_file s) = Running \<Longrightarrow> pc s = AtObserve \<or> observer s = Running"
  by (cases "pc s") (simp_all add: main_step_def split: sum.splits exn.splits if_splits)



lemma step_keeps_handler:
  assumes "observer s = Running \<longrightarrow> event_handler s = Some (handler_init L csv_file)"
    and "event_handler s = None \<or> event_handler s = Some (handler_init L csv_file)"
  shows "(observer (step L csv_file s e) = Running
            \<longrightarrow> event_handler (step L csv_file s e) = Some (handler_init L csv_file))
         \<and> (event_handler (step L csv_file s e) = None
              \<or> event_handler (step L csv_file s e) = Some (handler_init L csv_file))"
proof (cases e)
  case MainStep
  have "event_handler (main_step L csv_file s) = Some (handler_init L csv_file)"
    if "observer (main_step L csv_file s) = Running"
    using observer_main_step [OF that] assms(1) by (auto simp: event_handler_main_step)
  moreover have "event_handler (main_step L csv_file s) = None
      \<or> event_handler (main_step L csv_file s) = Some (handler_init L csv_file)"
    using assms(2) by (simp add: event_handler_main_step)
  ultimately show ?thesis
    unfolding MainStep step.simps by blast
next
  case (Notify ev)
  have "event_handler (step L csv_file s (Notify ev)) = event_handler s"
    "observer (step L csv_file s (Notify ev)) = observer s"
    by (simp_all split: option.splits)
  with assms Notify show ?thesis by simp
next
  case (FileWrite path outcome)
  with assms show ?thesis by simp
next
  case CloseWindow
  with assms show ?thesis by simp
next
  case CtrlC
  with assms show ?thesis by simp
qed


lemma run_keeps_handler:
  "(observer (run L csv_file (init_sys files) es) = Running
      \<longrightarrow> event_handler (run L csv_file (init_sys files) es) = Some (handler_init L csv_file))
   \<and> (event_handler (run L csv_file (init_sys files) es) = None
        \<or> event_handler (run L csv_file (init_sys files) es) = Some (handler_init L csv_file))"
proof (induction es rule: rev_induct)
  case Nil
  show ?case by (simp add: init_sys_def)
next
  case (snoc e es)
  from snoc.IH show ?case
    unfolding run_append run_Cons run_Nil
    by (intro step_keeps_handler) blast+
qed












text \<open>numpy on a column of strings, and on a column of one repeated number.\<close>

lemma nums_map_Str [simp]: "nums (map Str ss) = []"
  by (induction ss) auto

lemma strs_map_Str [simp]: "strs (map Str ss) = ss"
  by (induction ss) auto

lemma build_grid_Str:
  assumes "ss \<noteq> []" and "els \<noteq> []"
  shows "build_grid (map Str ss) (map Num els) = Inl no_loop"
  using assms
  by (simp add: build_grid_def np_min_def np_max_def reduce_cmp_def fold_min_Min fold_max_Max)

lemma linspace_real_same:
  assumes "2 \<le> n"
  shows "linspace_real a a n = replicate n a"
proof (rule nth_equalityI)
  show "length (linspace_real a a n) = length (replicate n a)" by simp
next
  fix i assume "i < length (linspace_real a a n)"
  then have "i < n" by simp
  with assms show "linspace_real a a n ! i = replicate n a ! i"
    by (simp add: linspace_real_nth)
qed

section \<open>Fewer than two samples\<close>

text \<open>
  Claim C3. When the file holds fewer than two samples (\<open>length df < 2\<close>, that is no row
  or one row), \<^verbatim>\<open>interpolate_and_plot\<close> returns normally: it prints the diagnostic
  \<^verbatim>\<open>Not enough data to plot.\<close>, leaves pyplot untouched (no render), and never consults
  \<^verbatim>\<open>griddata\<close> (the outcome is the same whatever \<^verbatim>\<open>griddata\<close> would do), so no
  interpolated field is produced.
\<close>

theorem insufficient_data_is_skipped:
  assumes "read_csv w csv_file = Inr df" and "length df < 2"
  shows "\<exists>w'. interpolate_and_plot L csv_file w = Inr w'
           \<and> stdout w' = stdout w @ [''Not enough data to plot.'']
           \<and> plt w' = plt w
           \<and> (\<forall>g. interpolate_and_plot (L\<lparr>griddata := g\<rparr>) csv_file w = Inr w')"
proof -
  let ?w = "py_print ''Not enough data to plot.'' w"
  have "interpolate_and_plot L csv_file w = Inr ?w"
    using assms by (rule too_few_rows)
  moreover have "interpolate_and_plot (L\<lparr>griddata := g\<rparr>) csv_file w = Inr ?w" for g
    using assms by (intro too_few_rows) simp_all
  ultimately show ?thesis by simp
qed

theorem insufficient_data_is_skipped_witness:
  "read_csv (init_world example_read_csv) ''one.csv'' = Inr [mk_sample 0 1 0 0]
   \<and> length [mk_sample 0 1 0 0] < 2
   \<and> (\<exists>w'. interpolate_and_plot example_lib ''one.csv'' (init_world example_read_csv) = Inr w'
           \<and> stdout w' = stdout (init_world example_read_csv) @ [''Not enough data to plot.'']
           \<and> plt w' = plt (init_world example_read_csv)
           \<and> (\<forall>g. interpolate_and_plot (example_lib\<lparr>griddata := g\<rparr>) ''one.csv'' (init_world example_read_csv) = Inr w'))"
  using insufficient_data_is_skipped [where L = example_lib and csv_file = "''one.csv''"
      and w = "init_world example_read_csv" and df = "[mk_sample 0 1 0 0]"]
  by (simp add: example_one)

section \<open>The bounds of the grid\<close>

text \<open>
  Claim C2. For a file of at least two samples whose azimuth and elevation columns are
  numbers (\<open>azs\<close> and \<open>els\<close>), the bounds that \<^verbatim>\<open>interpolate_and_plot\<close> computes are
  exactly the least and the greatest azimuth and the least and the greatest elevation,
  and, whenever the interpolation returns a field, the heat map is drawn with exactly
  these four numbers as its \<^verbatim>\<open>extent\<close>. The statement does not need the bounds to be
  non-degenerate: it also holds when the least and the greatest value coincide.
\<close>

theorem grid_bounds_are_column_extrema:
  assumes "read_csv w csv_file = Inr df" and "2 \<le> length df"
    and "map azimuth df = map Num azs" and "map elevation df = map Num els"
  shows "\<exists>g. build_grid (map azimuth df) (map elevation df) = Inr g
           \<and> az_min g = Num (Min (set azs)) \<and> az_max g = Num (Max (set azs))
           \<and> el_min g = Num (Min (set els)) \<and> el_max g = Num (Max (set els))
           \<and> (\<forall>field.
                griddata L (map azimuth df, map elevation df) (map power_val df) (AZ g, EL g)
                  = Inr field \<longrightarrow>
                (\<exists>w' fg. interpolate_and_plot L csv_file w = Inr w'
                   \<and> fig1 (plt w') = Some fg
                   \<and> hd (artists fg) =
                       Heatmap field (Num (Min (set azs)), Num (Max (set azs)),
                                      Num (Min (set els)), Num (Max (set els)))))"
proof -
  from assms have azs: "azs \<noteq> []" and els: "els \<noteq> []"
    by auto
  define g where "g =
     \<lparr>az_min = Num (Min (set azs)), az_max = Num (Max (set azs)),
      el_min = Num (Min (set els)), el_max = Num (Max (set els)),
      az_grid = map Num (linspace_real (Min (set azs)) (Max (set azs)) num_points),
      el_grid = map Num (linspace_real (Min (set els)) (Max (set els)) num_points),
      AZ = replicate num_points
             (map Num (linspace_real (Min (set azs)) (Max (set azs)) num_points)),
      EL = map (\<lambda>y. replicate num_points y)
             (map Num (linspace_real (Min (set els)) (Max (set els)) num_points))\<rparr>"
  have bg: "build_grid (map azimuth df) (map elevation df) = Inr g"
    unfolding g_def assms(3,4) using azs els by (rule build_grid_Num)
  have bounds: "az_min g = Num (Min (set azs))" "az_max g = Num (Max (set azs))"
    "el_min g = Num (Min (set els))" "el_max g = Num (Max (set els))"
    by (simp_all add: g_def)
  have "\<exists>w' fg. interpolate_and_plot L csv_file w = Inr w' \<and> fig1 (plt w') = Some fg
          \<and> hd (artists fg) =
              Heatmap field (Num (Min (set azs)), Num (Max (set azs)),
                             Num (Min (set els)), Num (Max (set els)))"
    if "griddata L (map azimuth df, map elevation df) (map power_val df) (AZ g, EL g) = Inr field"
    for field
    using that bounds by (simp add: plot_unfold [OF assms(1,2) bg] render_eq)
  with bg bounds show ?thesis by blast
qed

theorem grid_bounds_are_column_extrema_witness:
  "read_csv (init_world example_read_csv) ''data.csv'' =
     Inr [mk_sample 0 1 0 0, mk_sample 1 2 10 0, mk_sample 2 3 0 10, mk_sample 3 4 10 10]
   \<and> 2 \<le> length [mk_sample 0 1 0 0, mk_sample 1 2 10 0, mk_sample 2 3 0 10, mk_sample 3 4 10 10]
   \<and> (\<exists>g. build_grid [Num 0, Num 10, Num 0, Num 10] [Num 0, Num 0, Num 10, Num 10] = Inr g
         \<and> az_min g = Num 0 \<and> az_max g = Num 10 \<and> el_min g = Num 0 \<and> el_max g = Num 10
         \<and> (\<exists>w' fg. interpolate_and_plot example_lib ''data.csv'' (init_world example_read_csv) = Inr w'
               \<and> fig1 (plt w') = Some fg
               \<and> hd (artists fg) =
                   Heatmap (map (map (\<lambda>x. NaN)) (AZ g)) (Num 0, Num 10, Num 0, Num 10)))"
proof -
  let ?df = "[mk_sample 0 1 0 0, mk_sample 1 2 10 0, mk_sample 2 3 0 10, mk_sample 3 4 10 10]"
  have "\<exists>g. build_grid (map azimuth ?df) (map elevation ?df) = Inr g
           \<and> az_min g = Num (Min (set [0, 10, 0, 10])) \<and> az_max g = Num (Max (set [0, 10, 0, 10]))
           \<and> el_min g = Num (Min (set [0, 0, 10, 10])) \<and> el_max g = Num (Max (set [0, 0, 10, 10]))
           \<and> (\<forall>field.
                griddata example_lib (map azimuth ?df, map elevation ?df) (map power_val ?df)
                  (AZ g, EL g) = Inr field \<longrightarrow>
                (\<exists>w' fg. interpolate_and_plot example_lib ''data.csv'' (init_world example_read_csv) = Inr w'
                   \<and> fig1 (plt w') = Some fg
                   \<and> hd (artists fg) =
                       Heatmap field (Num (Min (set [0, 10, 0, 10])), Num (Max (set [0, 10, 0, 10])),
                                      Num (Min (set [0, 0, 10, 10])), Num (Max (set [0, 0, 10, 10])))))"
    by (rule grid_bounds_are_column_extrema) (simp_all add: example_data mk_sample_def)
  then obtain g where g: "build_grid [Num 0, Num 10, Num 0, Num 10] [Num 0, Num 0, Num 10, Num 10] = Inr g"
      "az_min g = Num 0" "az_max g = Num 10" "el_min g = Num 0" "el_max g = Num 10"
    and r: "\<And>field. example_griddata ([Num 0, Num 10, Num 0, Num 10], [Num 0, Num 0, Num 10, Num 10])
                 [Num 1, Num 2, Num 3, Num 4] (AZ g, EL g) = Inr field \<Longrightarrow>
            \<exists>w' fg. interpolate_and_plot example_lib ''data.csv'' (init_world example_read_csv) = Inr w'
                   \<and> fig1 (plt w') = Some fg
                   \<and> hd (artists fg) = Heatmap field (Num 0, Num 10, Num 0, Num 10)"
    by (auto simp: mk_sample_def)
  from r [OF example_griddata_square] g show ?thesis
    by (simp add: example_data)
qed


section \<open>The resolution of the grid\<close>




section \<open>A refresh that fails\<close>




section \<open>What sets the flag\<close>

text \<open>
  Claim C4. In every state the process can reach, with the flag \<^verbatim>\<open>file_changed\<close> false,
  a single step sets the flag exactly when it is the observer, running, calling the
  handler with a modification event whose path has the same absolute form
  (\<^verbatim>\<open>os.path.abspath\<close>) as the path of the watched file. A modification event for any
  other path, an event of any other type, and every step of main, of the file system or
  of the user leave the flag false.
\<close>

theorem flag_set_exactly_by_modification_of_target:
  assumes "s = run L csv_file (init_sys files) es" and "\<not> file_changed s"
  shows "file_changed (step L csv_file s e) \<longleftrightarrow>
           observer s = Running
           \<and> (\<exists>ev. e = Notify ev \<and> event_type ev = Modified
                  \<and> abspath L (src_path ev) = abspath L csv_file)"
proof (cases e)
  case MainStep
  with assms(2) show ?thesis
    by (simp add: main_step_never_sets_flag)
next
  case (Notify ev)
  from run_keeps_handler [of L csv_file files es] assms(1)
  have h: "observer s = Running \<longrightarrow> event_handler s = Some (handler_init L csv_file)"
    by simp
  show ?thesis
  proof (cases "observer s = Running")
    case True
    with h have "event_handler s = Some (handler_init L csv_file)" by simp
    with True Notify assms(2) show ?thesis
      by (simp add: dispatch_def on_modified_def handler_init_def)
  next
    case False
    with Notify assms(2) show ?thesis
      by (simp split: option.splits)
  qed
next
  case (FileWrite path outcome)
  with assms(2) show ?thesis by simp
next
  case CloseWindow
  with assms(2) show ?thesis by simp
next
  case CtrlC
  with assms(2) show ?thesis by simp
qed


theorem flag_set_exactly_by_modification_of_target_witness:
  "let s = run example_lib ''data.csv'' (init_sys example_read_csv) [MainStep, MainStep, MainStep]
   in \<not> file_changed s \<and> observer s = Running
      \<and> file_changed (step example_lib ''data.csv'' s
           (Notify \<lparr>event_type = Modified, src_path = ''/home/op/data.csv''\<rparr>))
      \<and> \<not> file_changed (step example_lib ''data.csv'' s
           (Notify \<lparr>event_type = Modified, src_path = ''/home/op/notes.txt''\<rparr>))
      \<and> \<not> file_changed (step example_lib ''data.csv'' s
           (Notify \<lparr>event_type = Created, src_path = ''/home/op/data.csv''\<rparr>))
      \<and> \<not> file_changed (step example_lib ''data.csv'' s MainStep)"
proof -
  define s where "s = run example_lib ''data.csv'' (init_sys example_read_csv)
     [MainStep, MainStep, MainStep]"
  define w1 where "w1 = (init_world example_read_csv)
     \<lparr>plt := plt_ion (plt (init_world example_read_csv))\<rparr>"
  have "read_csv w1 ''data.csv'' =
     Inr [mk_sample 0 1 0 0, mk_sample 1 2 10 0, mk_sample 2 3 0 10, mk_sample 3 4 10 10]"
    by (simp add: w1_def example_data)
  from example_plot_square [OF this] obtain field g where
    plot: "interpolate_and_plot example_lib ''data.csv'' w1 =
       Inr (w1\<lparr>plt := render field g [Num 0, Num 10, Num 0, Num 10] [Num 0, Num 0, Num 10, Num 10]
                        (plt w1)\<rparr>)"
    by blast
  have s: "\<not> file_changed s" "observer s = Running"
    unfolding s_def
    by (simp_all add: init_sys_def main_step_def plot [unfolded w1_def])
  note flag_iff = flag_set_exactly_by_modification_of_target [OF s_def s(1)]
  have 1: "file_changed (step example_lib ''data.csv'' s
           (Notify \<lparr>event_type = Modified, src_path = ''/home/op/data.csv''\<rparr>))"
    by (rule iffD2 [OF flag_iff]) (simp add: s(2) example_abspath_def)
  have 2: "\<not> file_changed (step example_lib ''data.csv'' s
           (Notify \<lparr>event_type = Modified, src_path = ''/home/op/notes.txt''\<rparr>))"
    using flag_iff [of "Notify \<lparr>event_type = Modified, src_path = ''/home/op/notes.txt''\<rparr>"]
    by (simp add: example_abspath_def)
  have 3: "\<not> file_changed (step example_lib ''data.csv'' s
           (Notify \<lparr>event_type = Created, src_path = ''/home/op/data.csv''\<rparr>))"
    using flag_iff [of "Notify \<lparr>event_type = Created, src_path = ''/home/op/data.csv''\<rparr>"]
    by simp
  have 4: "\<not> file_changed (step example_lib ''data.csv'' s MainStep)"
    using flag_iff [of MainStep] by simp
  from s 1 2 3 4 show ?thesis
    unfolding s_def [symmetric] Let_def by blast
qed

section \<open>The dirty flag: bursts coalesce, no notification is lost\<close>




section \<open>A first refresh that fails\<close>

text \<open>
  Claim C9 says that after a failed first refresh the loop keeps running. The code
  does otherwise. When the first call of \<^verbatim>\<open>interpolate_and_plot\<close> fails to load the file
  or finds fewer than two samples, it returns before \<^verbatim>\<open>plt.clf()\<close>, so no figure has
  been created; the first \<^verbatim>\<open>plt.fignum_exists(1)\<close> of the loop is false, the loop breaks,
  the observer is stopped and main returns. Five steps of main from the start end the
  process, whatever the library does.
\<close>

theorem failed_first_refresh_ends_the_process:
  assumes "(\<exists>e. files csv_file = Inl (Exception e))
           \<or> (\<exists>df. files csv_file = Inr df \<and> length df < 2)"
  shows "pc (run L csv_file (init_sys files) [MainStep, MainStep, MainStep]) = AtFigCheck
     \<and> observer (run L csv_file (init_sys files) [MainStep, MainStep, MainStep]) = Running
     \<and> \<not> plt_fignum_exists
           (plt (wld (run L csv_file (init_sys files) [MainStep, MainStep, MainStep])))
     \<and> pc (run L csv_file (init_sys files) [MainStep, MainStep, MainStep, MainStep]) = AtFinally
     \<and> pc (run L csv_file (init_sys files)
           [MainStep, MainStep, MainStep, MainStep, MainStep]) = Exited
     \<and> observer (run L csv_file (init_sys files)
           [MainStep, MainStep, MainStep, MainStep, MainStep]) = Stopped
     \<and> refreshes (run L csv_file (init_sys files)
           [MainStep, MainStep, MainStep, MainStep, MainStep]) = 1"
proof -
  define w1 where "w1 = (init_world files)\<lparr>plt := plt_ion (plt (init_world files))\<rparr>"
  have "(\<exists>e. read_csv w1 csv_file = Inl (Exception e))
           \<or> (\<exists>df. read_csv w1 csv_file = Inr df \<and> length df < 2)"
    using assms by (simp add: w1_def init_world_def)
  from failed_refresh_returns [OF this, of L]
  obtain msg where "interpolate_and_plot L csv_file w1 = Inr (py_print msg w1)"
    by blast
  then show ?thesis
    unfolding w1_def
    by (simp add: init_sys_def main_step_def plt_fignum_exists_def init_world_def plt_ion_def)
qed

theorem failed_first_refresh_ends_the_process_witness:
  "example_read_csv ''missing.csv''
      = Inl (Exception ''[Errno 2] No such file or directory: missing.csv'')
   \<and> pc (run example_lib ''missing.csv'' (init_sys example_read_csv)
           [MainStep, MainStep, MainStep, MainStep, MainStep]) = Exited
   \<and> observer (run example_lib ''missing.csv'' (init_sys example_read_csv)
           [MainStep, MainStep, MainStep, MainStep, MainStep]) = Stopped"
proof -
  have "example_read_csv ''missing.csv''
      = Inl (Exception ''[Errno 2] No such file or directory: missing.csv'')"
    by (simp add: example_read_csv_def)
  with failed_first_refresh_ends_the_process [of example_read_csv "''missing.csv''" example_lib]
  show ?thesis by blast
qed

section \<open>A column that is not numeric\<close>

text \<open>
  Claim C5 says that a file with a non-numeric column is treated as a load failure,
  reported and not fatal. The code does otherwise. Only \<^verbatim>\<open>pd.read_csv\<close> stands inside
  the \<^verbatim>\<open>try\<close>, and pandas reads such a file without raising: the column becomes a
  column of strings. With at least two rows the guard \<^verbatim>\<open>len(df) < 2\<close> passes,
  \<^verbatim>\<open>np.linspace\<close> raises on the string bounds, and nothing catches the exception: it
  leaves \<^verbatim>\<open>interpolate_and_plot\<close>, and main with it, whether the call is the first one
  or one made by the loop.
\<close>

theorem non_numeric_column_is_fatal:
  assumes "read_csv w csv_file = Inr df" and "2 \<le> length df"
    and "map azimuth df = map Str ss" and "map elevation df = map Num els"
  shows "interpolate_and_plot L csv_file w = Inl no_loop
         \<and> (pc s = AtInitialPlot \<and> wld s = w \<longrightarrow>
              pc (step L csv_file s MainStep) = Crashed no_loop)
         \<and> (pc s = InReplot \<and> wld s = w \<longrightarrow>
              pc (step L csv_file s MainStep) = Crashed no_loop
              \<and> observer (step L csv_file s MainStep) = Stopped)"
proof -
  from assms have "ss \<noteq> []" "els \<noteq> []" by auto
  then have "build_grid (map azimuth df) (map elevation df) = Inl no_loop"
    unfolding assms(3,4) by (rule build_grid_Str)
  with assms(1,2) have "interpolate_and_plot L csv_file w = Inl no_loop"
    by (simp add: interpolate_and_plot_def Let_def)
  then show ?thesis
    by (simp add: main_step_def no_loop_def)
qed

theorem non_numeric_column_is_fatal_witness:
  "let bad = [\<lparr>time = Num 0, power_val = Num 1, azimuth = Str ''abc'', elevation = Num 0\<rparr>,
              \<lparr>time = Num 1, power_val = Num 2, azimuth = Str ''10'', elevation = Num 0\<rparr>];
       s = run example_lib ''data.csv'' (init_sys example_read_csv)
             [MainStep, MainStep, MainStep, MainStep,
              FileWrite ''data.csv'' (Inr bad),
              Notify \<lparr>event_type = Modified, src_path = ''data.csv''\<rparr>,
              MainStep, MainStep, MainStep]
   in example_read_csv ''text.csv'' = Inr bad
      \<and> interpolate_and_plot example_lib ''text.csv'' (init_world example_read_csv) = Inl no_loop
      \<and> pc s = InReplot \<and> read_csv (wld s) ''data.csv'' = Inr bad
      \<and> pc (step example_lib ''data.csv'' s MainStep) = Crashed no_loop
      \<and> observer (step example_lib ''data.csv'' s MainStep) = Stopped"
proof -
  define bad where "bad =
     [\<lparr>time = Num 0, power_val = Num 1, azimuth = Str ''abc'', elevation = Num 0\<rparr>,
      \<lparr>time = Num 1, power_val = Num 2, azimuth = Str ''10'', elevation = Num 0\<rparr>]"
  define s where "s = run example_lib ''data.csv'' (init_sys example_read_csv)
             [MainStep, MainStep, MainStep, MainStep,
              FileWrite ''data.csv'' (Inr bad),
              Notify \<lparr>event_type = Modified, src_path = ''data.csv''\<rparr>,
              MainStep, MainStep, MainStep]"
  define w1 where "w1 = (init_world example_read_csv)
     \<lparr>plt := plt_ion (plt (init_world example_read_csv))\<rparr>"
  have "read_csv w1 ''data.csv'' =
     Inr [mk_sample 0 1 0 0, mk_sample 1 2 10 0, mk_sample 2 3 0 10, mk_sample 3 4 10 10]"
    by (simp add: w1_def example_data)
  from example_plot_square [OF this] obtain field g where
    plot: "interpolate_and_plot example_lib ''data.csv'' w1 =
       Inr (w1\<lparr>plt := render field g [Num 0, Num 10, Num 0, Num 10] [Num 0, Num 0, Num 10, Num 10]
                        (plt w1)\<rparr>)"
    by blast
  have s: "pc s = InReplot" "read_csv (wld s) ''data.csv'' = Inr bad"
    unfolding s_def
    by (simp_all add: init_sys_def main_step_def plot [unfolded w1_def] plt_fignum_exists_def
        handler_init_def dispatch_def on_modified_def example_abspath_def)
  have cols: "2 \<le> length bad" "map azimuth bad = map Str [''abc'', ''10'']"
    "map elevation bad = map Num [0, 0]"
    by (simp_all add: bad_def)
  have rd: "example_read_csv ''text.csv'' = Inr bad"
    "read_csv (init_world example_read_csv) ''text.csv'' = Inr bad"
    by (simp_all add: example_read_csv_def bad_def init_world_def)
  from non_numeric_column_is_fatal [OF rd(2) cols, of example_lib s]
  have 1: "interpolate_and_plot example_lib ''text.csv'' (init_world example_read_csv) = Inl no_loop"
    by blast
  from non_numeric_column_is_fatal [OF s(2) cols, of example_lib s] s(1)
  have 2: "pc (step example_lib ''data.csv'' s MainStep) = Crashed no_loop"
    "observer (step example_lib ''data.csv'' s MainStep) = Stopped"
    by blast+
  from rd(1) 1 2 s show ?thesis
    unfolding Let_def bad_def [symmetric] s_def [symmetric] by blast
qed

section \<open>Samples on one line\<close>

text \<open>
  Claim C6 says that at least two samples of one azimuth (or of one elevation) are a
  valid edge case: a degenerate grid is produced and the refresh completes without
  raising. The code does build the grid, whose hundred azimuths are all the same
  number, and then hands the samples to \<^verbatim>\<open>griddata\<close> with nothing around the call.
  Samples of one azimuth lie on one line, scipy cannot triangulate them and raises
  \<^verbatim>\<open>QhullError\<close>; whatever \<^verbatim>\<open>griddata\<close> raises leaves \<^verbatim>\<open>interpolate_and_plot\<close>, and a
  refresh made by the loop ends the process.
\<close>

theorem degenerate_samples_are_fatal:
  assumes "read_csv w csv_file = Inr df" and "2 \<le> length df"
    and "map azimuth df = map Num azs" and "set azs = {a}"
    and "map elevation df = map Num els"
  shows "\<exists>g. build_grid (map azimuth df) (map elevation df) = Inr g
           \<and> az_min g = Num a \<and> az_max g = Num a
           \<and> az_grid g = replicate num_points (Num a)
           \<and> (\<forall>m. griddata L (map azimuth df, map elevation df) (map power_val df)
                      (AZ g, EL g) = Inl (Exception m) \<longrightarrow>
                  interpolate_and_plot L csv_file w = Inl (Exception m)
                  \<and> (pc s = InReplot \<and> wld s = w \<longrightarrow>
                       pc (step L csv_file s MainStep) = Crashed (Exception m)
                       \<and> observer (step L csv_file s MainStep) = Stopped))"
proof -
  from assms have ne: "azs \<noteq> []" "els \<noteq> []" by auto
  define g where "g =
     \<lparr>az_min = Num a, az_max = Num a,
      el_min = Num (Min (set els)), el_max = Num (Max (set els)),
      az_grid = replicate num_points (Num a),
      el_grid = map Num (linspace_real (Min (set els)) (Max (set els)) num_points),
      AZ = replicate num_points (replicate num_points (Num a)),
      EL = map (\<lambda>y. replicate num_points y)
             (map Num (linspace_real (Min (set els)) (Max (set els)) num_points))\<rparr>"
  have "linspace_real a a num_points = replicate num_points a"
    by (rule linspace_real_same) (simp add: num_points_def)
  with build_grid_Num [OF ne] assms(4)
  have grid: "build_grid (map azimuth df) (map elevation df) = Inr g"
    unfolding assms(3,5) g_def by simp
  have "interpolate_and_plot L csv_file w = Inl (Exception m)
        \<and> (pc s = InReplot \<and> wld s = w \<longrightarrow>
             pc (step L csv_file s MainStep) = Crashed (Exception m)
             \<and> observer (step L csv_file s MainStep) = Stopped)"
    if "griddata L (map azimuth df, map elevation df) (map power_val df) (AZ g, EL g)
          = Inl (Exception m)" for m
  proof -
    from plot_unfold [OF assms(1,2) grid, of L] that
    have "interpolate_and_plot L csv_file w = Inl (Exception m)" by simp
    then show ?thesis by (simp add: main_step_def)
  qed
  moreover have "az_min g = Num a" "az_max g = Num a" "az_grid g = replicate num_points (Num a)"
    by (simp_all add: g_def)
  ultimately show ?thesis using grid by blast
qed

theorem degenerate_samples_are_fatal_witness:
  "let line = [mk_sample 0 1 5 0, mk_sample 1 2 5 10, mk_sample 2 3 5 20];
       qhull = Exception ''QhullError: QH6154 Qhull precision error: Initial simplex is flat'';
       s = run example_lib ''data.csv'' (init_sys example_read_csv)
             [MainStep, MainStep, MainStep, MainStep,
              FileWrite ''data.csv'' (Inr line),
              Notify \<lparr>event_type = Modified, src_path = ''data.csv''\<rparr>,
              MainStep, MainStep, MainStep]
   in example_read_csv ''line.csv'' = Inr line
      \<and> interpolate_and_plot example_lib ''line.csv'' (init_world example_read_csv) = Inl qhull
      \<and> pc s = InReplot \<and> read_csv (wld s) ''data.csv'' = Inr line
      \<and> pc (step example_lib ''data.csv'' s MainStep) = Crashed qhull
      \<and> observer (step example_lib ''data.csv'' s MainStep) = Stopped"
proof -
  define line where "line = [mk_sample 0 1 5 0, mk_sample 1 2 5 10, mk_sample 2 3 5 20]"
  define qhull where
    "qhull = Exception ''QhullError: QH6154 Qhull precision error: Initial simplex is flat''"
  define s where "s = run example_lib ''data.csv'' (init_sys example_read_csv)
             [MainStep, MainStep, MainStep, MainStep,
              FileWrite ''data.csv'' (Inr line),
              Notify \<lparr>event_type = Modified, src_path = ''data.csv''\<rparr>,
              MainStep, MainStep, MainStep]"
  define w1 where "w1 = (init_world example_read_csv)
     \<lparr>plt := plt_ion (plt (init_world example_read_csv))\<rparr>"
  have "read_csv w1 ''data.csv'' =
     Inr [mk_sample 0 1 0 0, mk_sample 1 2 10 0, mk_sample 2 3 0 10, mk_sample 3 4 10 10]"
    by (simp add: w1_def example_data)
  from example_plot_square [OF this] obtain field g where
    plot: "interpolate_and_plot example_lib ''data.csv'' w1 =
       Inr (w1\<lparr>plt := render field g [Num 0, Num 10, Num 0, Num 10] [Num 0, Num 0, Num 10, Num 10]
                        (plt w1)\<rparr>)"
    by blast
  have s: "pc s = InReplot" "read_csv (wld s) ''data.csv'' = Inr line"
    unfolding s_def
    by (simp_all add: init_sys_def main_step_def plot [unfolded w1_def] plt_fignum_exists_def
        handler_init_def dispatch_def on_modified_def example_abspath_def)
  have cols: "2 \<le> length line" "map azimuth line = map Num [5, 5, 5]" "set [5, 5, 5::real] = {5}"
    "map elevation line = map Num [0, 10, 20]"
    by (simp_all add: line_def mk_sample_def)
  have rd: "example_read_csv ''line.csv'' = Inr line"
    "read_csv (init_world example_read_csv) ''line.csv'' = Inr line"
    by (simp_all add: example_read_csv_def line_def init_world_def)
  have raises: "griddata example_lib (map azimuth line, map elevation line) vals xi = Inl qhull"
    for vals xi
    by (simp add: example_griddata_def collinear_def line_def mk_sample_def qhull_def)
  from degenerate_samples_are_fatal [OF rd(2) cols, of example_lib s] raises
  have 1: "interpolate_and_plot example_lib ''line.csv'' (init_world example_read_csv) = Inl qhull"
    unfolding qhull_def by blast
  from degenerate_samples_are_fatal [OF s(2) cols, of example_lib s] raises s(1)
  have 2: "pc (step example_lib ''data.csv'' s MainStep) = Crashed qhull"
    "observer (step example_lib ''data.csv'' s MainStep) = Stopped"
    unfolding qhull_def by blast+
  from rd(1) 1 2 s show ?thesis
    unfolding Let_def line_def [symmetric] qhull_def [symmetric] s_def [symmetric] by blast
qed

end
